theory Spec2Isabelle
  imports Complex_Main
begin

section \<open>JavaScript values\<close>

text \<open>
  \<open>validateConfig\<close> takes a value of TypeScript type \<open>any\<close>, so the model starts from
  the values of the language. A number is an IEEE double: every finite double is a
  rational, and the validator only tests a number for truthiness and compares it with
  \<open>0\<close> and \<open>10000\<close>, so a finite number is kept as its exact rational value (\<open>+0\<close> and
  \<open>-0\<close> are both \<open>NumFin 0\<close>: they are equally falsy and compare alike). Objects and
  functions are references into a heap of property tables.
\<close>

datatype jsnum = NumNaN | NumPosInf | NumNegInf | NumFin rat

text \<open>
  A string is a sequence of UTF-16 code units. A code unit is kept as a natural number;
  that it is below \<open>2^16\<close> plays no role in what the validator does and is not enforced
  by the type. \<open>utf16\<close> gives the code units of a literal written with characters whose
  code unit is their character code (ASCII and Latin-1).
\<close>

type_synonym jsstring = "nat list"

definition utf16 :: "string \<Rightarrow> jsstring" where
  "utf16 s = map of_char s"

type_synonym addr = nat

datatype jsval =
    JUndefined
  | JNull
  | JBool bool
  | JNum jsnum
  | JStr jsstring
  | JBigInt int
  | JSymbol string
  | JObj addr
  | JFun addr

text \<open>The \<open>typeof\<close> operator; \<open>typeof null\<close> is \<open>"object"\<close>.\<close>

fun typeof :: "jsval \<Rightarrow> string" where
  "typeof JUndefined = ''undefined''"
| "typeof JNull = ''object''"
| "typeof (JBool b) = ''boolean''"
| "typeof (JNum n) = ''number''"
| "typeof (JStr s) = ''string''"
| "typeof (JBigInt i) = ''bigint''"
| "typeof (JSymbol d) = ''symbol''"
| "typeof (JObj a) = ''object''"
| "typeof (JFun a) = ''function''"

text \<open>
  ToBoolean, applied by \<open>!\<close>, \<open>&&\<close> and \<open>if\<close>: \<open>undefined\<close>, \<open>null\<close>, \<open>false\<close>, \<open>NaN\<close>,
  zero, the empty string and \<open>0n\<close> are falsy, every other value is truthy.
\<close>

fun truthy :: "jsval \<Rightarrow> bool" where
  "truthy JUndefined = False"
| "truthy JNull = False"
| "truthy (JBool b) = b"
| "truthy (JNum n) = (n \<noteq> NumNaN \<and> n \<noteq> NumFin 0)"
| "truthy (JStr s) = (s \<noteq> [])"
| "truthy (JBigInt i) = (i \<noteq> 0)"
| "truthy (JSymbol d) = True"
| "truthy (JObj a) = True"
| "truthy (JFun a) = True"

text \<open>The relational operator \<open><\<close> on two numbers: any comparison with \<open>NaN\<close> is false.\<close>

fun num_lt :: "jsnum \<Rightarrow> jsnum \<Rightarrow> bool" where
  "num_lt NumNaN y = False"
| "num_lt x NumNaN = False"
| "num_lt NumPosInf y = False"
| "num_lt NumNegInf y = (y \<noteq> NumNegInf)"
| "num_lt (NumFin a) NumPosInf = True"
| "num_lt (NumFin a) NumNegInf = False"
| "num_lt (NumFin a) (NumFin b) = (a < b)"

text \<open>
  \<open>x < y\<close> and \<open>x > y\<close> as the validator uses them. Each comparison of the source stands
  behind \<open>typeof x !== 'number' ||\<close>, so it is only ever evaluated on two numbers; the
  coercions of other operands are not modelled and the last equation is never reached
  from \<open>validateConfig\<close>.
\<close>

fun js_lt :: "jsval \<Rightarrow> jsval \<Rightarrow> bool" where
  "js_lt (JNum x) (JNum y) = num_lt x y"
| "js_lt x y = False"

definition js_gt :: "jsval \<Rightarrow> jsval \<Rightarrow> bool" where
  "js_gt x y = js_lt y x"

section \<open>The world: heap and console\<close>

text \<open>
  The heap gives every object its table of data properties: what a read of the
  property yields when no code runs, own or inherited; a name missing from the table
  reads as \<open>undefined\<close>. The console is part of the world so that logging would show.
\<close>

type_synonym props = "string \<rightharpoonup> jsval"

record world =
  heap :: "addr \<Rightarrow> props"
  console :: "string list"

datatype error = TypeError

type_synonym 'a js = "world \<Rightarrow> (error + 'a) \<times> world"

definition ret :: "'a \<Rightarrow> 'a js" where
  "ret x = (\<lambda>w. (Inr x, w))"

definition throw :: "error \<Rightarrow> 'a js" where
  "throw e = (\<lambda>w. (Inl e, w))"

definition bnd :: "'a js \<Rightarrow> ('a \<Rightarrow> 'b js) \<Rightarrow> 'b js" where
  "bnd m f = (\<lambda>w. case m w of (Inl e, w') \<Rightarrow> (Inl e, w') | (Inr x, w') \<Rightarrow> f x w')"

definition own :: "props \<Rightarrow> string \<Rightarrow> jsval" where
  "own ps k = (case ps k of None \<Rightarrow> JUndefined | Some v \<Rightarrow> v)"

text \<open>
  A property read can run code of the input: the getter of an accessor property, or
  the \<open>get\<close> trap of a proxy. \<open>E a k = Some g\<close> says that reading property \<open>k\<close> of the
  object at \<open>a\<close> runs \<open>g\<close> (the getter or trap, already applied to its receiver and
  key); such code may change any object, write to the console, throw, and answer
  differently from one read to the next by keeping state in the heap. \<open>E a k = None\<close>
  says that \<open>k\<close> is a data property of the object, or missing. \<open>no_getters\<close> is the
  program without accessor properties and proxies, and \<open>getter_of E v k\<close> the code
  that reading \<open>v.k\<close> runs, if any.
\<close>

type_synonym getters = "addr \<Rightarrow> string \<Rightarrow> (jsval js) option"

definition no_getters :: getters where
  "no_getters = (\<lambda>a k. None)"

fun getter_of :: "getters \<Rightarrow> jsval \<Rightarrow> string \<Rightarrow> (jsval js) option" where
  "getter_of E (JObj a) k = E a k"
| "getter_of E (JFun a) k = E a k"
| "getter_of E v k = None"

text \<open>
  \<open>v.k\<close>: reading a property of \<open>undefined\<close> or \<open>null\<close> throws a TypeError; on an
  object the read runs the getter or trap if there is one and yields the data
  property otherwise. A primitive has no own properties (what its wrapper prototype
  supplies, such as \<open>length\<close>, is not modelled: the validator reads none of it).
\<close>

fun get_prop :: "getters \<Rightarrow> jsval \<Rightarrow> string \<Rightarrow> jsval js" where
  "get_prop E JUndefined k = throw TypeError"
| "get_prop E JNull k = throw TypeError"
| "get_prop E (JObj a) k =
     (case E a k of Some g \<Rightarrow> g | None \<Rightarrow> (\<lambda>w. (Inr (own (heap w a) k), w)))"
| "get_prop E (JFun a) k =
     (case E a k of Some g \<Rightarrow> g | None \<Rightarrow> (\<lambda>w. (Inr (own (heap w a) k), w)))"
| "get_prop E v k = ret JUndefined"

text \<open>Short-circuit \<open>&&\<close> and \<open>||\<close> in condition position, \<open>!\<close>, and ToBoolean of an expression.\<close>

definition and_js :: "bool js \<Rightarrow> bool js \<Rightarrow> bool js" where
  "and_js a b = bnd a (\<lambda>x. if x then b else ret False)"

definition or_js :: "bool js \<Rightarrow> bool js \<Rightarrow> bool js" where
  "or_js a b = bnd a (\<lambda>x. if x then ret True else b)"

definition not_js :: "bool js \<Rightarrow> bool js" where
  "not_js a = bnd a (\<lambda>x. ret (\<not> x))"

definition to_bool :: "jsval js \<Rightarrow> bool js" where
  "to_bool m = bnd m (\<lambda>v. ret (truthy v))"

definition apply_js :: "(jsval \<Rightarrow> 'a) \<Rightarrow> jsval js \<Rightarrow> 'a js" where
  "apply_js f m = bnd m (\<lambda>v. ret (f v))"

text \<open>\<open>if (c) { return false; }\<close> followed by the rest of the function body.\<close>

definition reject_if :: "bool js \<Rightarrow> bool js \<Rightarrow> bool js" where
  "reject_if c rest = bnd c (\<lambda>b. if b then ret False else rest)"

section \<open>The pattern of \<open>rtvPin\<close>\<close>

text \<open>
  \<open>/^\d{15}$/\<close> has no flags: \<open>^\<close> anchors at index 0, \<open>\d\<close> is a code unit in the range
  U+0030 to U+0039 and nothing else, \<open>{15}\<close> repeats it exactly fifteen times, and \<open>$\<close>
  matches only at the end of the input. \<open>digits n s\<close> consumes \<open>\d{n}\<close> from the front of
  \<open>s\<close> and returns what is left, or fails.
\<close>

definition is_digit :: "nat \<Rightarrow> bool" where
  "is_digit u = (48 \<le> u \<and> u \<le> 57)"

fun digits :: "nat \<Rightarrow> jsstring \<Rightarrow> jsstring option" where
  "digits 0 s = Some s"
| "digits (Suc n) [] = None"
| "digits (Suc n) (c # cs) = (if is_digit c then digits n cs else None)"

definition rtv_regex :: "jsstring \<Rightarrow> bool" where
  "rtv_regex s = (case digits 15 s of None \<Rightarrow> False | Some rest \<Rightarrow> rest = [])"

text \<open>
  \<open>v.match(/^\d{15}$/)\<close> in condition position: on a string, whether the pattern
  matches (\<open>match\<close> returns an array, truthy, or \<open>null\<close>). On anything else the call is
  a TypeError here: a non-string has no \<open>String.prototype.match\<close>, and calling an
  object's own \<open>match\<close> is not modelled. The validator guards the call with
  \<open>typeof v !== 'string' ||\<close>.
\<close>

fun match_rtv :: "jsval \<Rightarrow> bool js" where
  "match_rtv (JStr s) = ret (rtv_regex s)"
| "match_rtv v = throw TypeError"

section \<open>validateConfig\<close>

text \<open>
  The two URL predicates are imported from \<open>./util\<close>, which is not part of the sources
  at hand; they are parameters of the model, pure boolean predicates on a value as
  their contract says. \<open>validateConfig_env E\<close> is the function of the source in a
  program whose accessor properties and proxy traps are \<open>E\<close>; its body follows the
  source statement by statement.
\<close>

definition validateConfig_env ::
  "getters \<Rightarrow> (jsval \<Rightarrow> bool) \<Rightarrow> (jsval \<Rightarrow> bool) \<Rightarrow> jsval \<Rightarrow> bool js" where
  "validateConfig_env E isValidURL isValidURLWithPlaceholder config =
    (if typeof config \<noteq> ''object'' then ret False else
     reject_if (not_js (apply_js isValidURL (get_prop E config ''relayPageURL''))) (
     reject_if (apply_js (\<lambda>v. typeof v \<noteq> ''boolean'') (get_prop E config ''useOpaqueOrigin'')) (
     reject_if (and_js (to_bool (get_prop E config ''imageProxyURL''))
                  (not_js (apply_js isValidURLWithPlaceholder (get_prop E config ''imageProxyURL'')))) (
     reject_if (and_js (to_bool (get_prop E config ''xhrProxyURL''))
                  (not_js (apply_js isValidURL (get_prop E config ''xhrProxyURL'')))) (
     reject_if (and_js (not_js (to_bool (get_prop E config ''xhrProxyURL'')))
                  (to_bool (get_prop E config ''templateProxyURL''))) (
     reject_if (and_js (to_bool (get_prop E config ''templateProxyURL''))
                  (not_js (apply_js isValidURL (get_prop E config ''templateProxyURL'')))) (
     reject_if (and_js (not_js (to_bool (get_prop E config ''templateProxyURL'')))
                  (to_bool (get_prop E config ''processTemplateProxyOutput''))) (
     reject_if (and_js (to_bool (get_prop E config ''linkRedirectURL''))
                  (not_js (apply_js isValidURLWithPlaceholder (get_prop E config ''linkRedirectURL'')))) (
     reject_if (and_js (to_bool (get_prop E config ''rtvPin''))
                  (or_js (apply_js (\<lambda>v. typeof v \<noteq> ''string'') (get_prop E config ''rtvPin''))
                         (not_js (bnd (get_prop E config ''rtvPin'') match_rtv)))) (
     reject_if (and_js (to_bool (get_prop E config ''runtimeCDN''))
                  (not_js (apply_js isValidURL (get_prop E config ''runtimeCDN'')))) (
     reject_if (and_js (to_bool (get_prop E config ''failOnLoadErrorAfter''))
                  (or_js (apply_js (\<lambda>v. typeof v \<noteq> ''number'') (get_prop E config ''failOnLoadErrorAfter''))
                  (or_js (apply_js (\<lambda>v. js_lt v (JNum (NumFin 0))) (get_prop E config ''failOnLoadErrorAfter''))
                         (apply_js (\<lambda>v. js_gt v (JNum (NumFin 10000))) (get_prop E config ''failOnLoadErrorAfter''))))) (
     reject_if (and_js (to_bool (get_prop E config ''loadTimeout''))
                  (or_js (apply_js (\<lambda>v. typeof v \<noteq> ''number'') (get_prop E config ''loadTimeout''))
                  (or_js (apply_js (\<lambda>v. js_lt v (JNum (NumFin 0))) (get_prop E config ''loadTimeout''))
                         (apply_js (\<lambda>v. js_gt v (JNum (NumFin 10000))) (get_prop E config ''loadTimeout''))))) (
     reject_if (and_js (to_bool (get_prop E config ''rtvPin''))
                  (to_bool (get_prop E config ''runtimeCDN''))) (
     reject_if (and_js (to_bool (get_prop E config ''maximumAMPSize''))
                  (or_js (apply_js (\<lambda>v. typeof v \<noteq> ''number'') (get_prop E config ''maximumAMPSize''))
                         (apply_js (\<lambda>v. js_lt v (JNum (NumFin 0))) (get_prop E config ''maximumAMPSize'')))) (
     ret True)))))))))))))))"

text \<open>
  \<open>validateConfig\<close> is the validator on inputs whose properties are all data
  properties, where a property read runs no code of the input.
\<close>

definition validateConfig :: "(jsval \<Rightarrow> bool) \<Rightarrow> (jsval \<Rightarrow> bool) \<Rightarrow> jsval \<Rightarrow> bool js" where
  "validateConfig isValidURL isValidURLWithPlaceholder config =
     validateConfig_env no_getters isValidURL isValidURLWithPlaceholder config"

section \<open>Describing inputs\<close>

text \<open>
  \<open>set_prop a k v\<close> is the world in which property \<open>k\<close> of the object at \<open>a\<close> has been
  set to \<open>v\<close>, \<open>del_prop a k\<close> the one in which it has been deleted, and \<open>literal ps\<close> the
  world holding one object, at address 0, with the properties listed in \<open>ps\<close> (an
  object literal; \<open>map_of\<close> takes the first binding of a name).
\<close>

definition set_prop :: "addr \<Rightarrow> string \<Rightarrow> jsval \<Rightarrow> world \<Rightarrow> world" where
  "set_prop a k v w = w\<lparr>heap := (heap w)(a := (heap w a)(k \<mapsto> v))\<rparr>"

definition del_prop :: "addr \<Rightarrow> string \<Rightarrow> world \<Rightarrow> world" where
  "del_prop a k w = w\<lparr>heap := (heap w)(a := (heap w a)(k := None))\<rparr>"

definition literal :: "(string \<times> jsval) list \<Rightarrow> world" where
  "literal ps = \<lparr>heap = (\<lambda>a. if a = 0 then map_of ps else Map.empty), console = []\<rparr>"

text \<open>The minimal valid object of the specification's test list.\<close>

definition minimal_config :: "(string \<times> jsval) list" where
  "minimal_config =
    [(''relayPageURL'', JStr (utf16 ''https://example.com/relay'')), (''useOpaqueOrigin'', JBool True)]"

text \<open>
  Three programs in which the object at address 0 has an accessor property
  \<open>relayPageURL\<close> and nothing else runs code. In \<open>constant_getters\<close> it is
  \<open>get relayPageURL() { return "https://example.com/relay"; }\<close>, in \<open>counting_getters\<close>
  it is \<open>get relayPageURL() { this.n = 1; return "https://example.com/relay"; }\<close>, and
  in \<open>flipping_getters\<close> the getter keeps a flag in an object of its own, at address 1:
  \<open>get relayPageURL() { if (state.seen) return undefined; state.seen = true;
  return "https://example.com/relay"; }\<close>.
\<close>

definition constant_getters :: getters where
  "constant_getters a k =
     (if a = 0 \<and> k = ''relayPageURL''
      then Some (ret (JStr (utf16 ''https://example.com/relay'')))
      else None)"

definition counting_getters :: getters where
  "counting_getters a k =
     (if a = 0 \<and> k = ''relayPageURL''
      then Some (\<lambda>w. (Inr (JStr (utf16 ''https://example.com/relay'')),
                       set_prop 0 ''n'' (JNum (NumFin 1)) w))
      else None)"


text \<open>
  A stand-in for the two URL predicates wherever a concrete instance of the parameters
  is needed: it accepts the strings that start with \<open>https://\<close>. Nothing is proved
  about the predicates of \<open>./util\<close> through it.
\<close>

definition sample_url :: "jsval \<Rightarrow> bool" where
  "sample_url v = (case v of JStr s \<Rightarrow> take 8 s = utf16 ''https://'' | _ \<Rightarrow> False)"

section \<open>Reasoning about the validator\<close>

text \<open>
  \<open>reads m w x\<close>: run in \<open>w\<close>, the computation \<open>m\<close> returns \<open>x\<close> without throwing and
  leaves \<open>w\<close> as it was. \<open>preserves m\<close>: whatever \<open>m\<close> does, value or exception, the
  world after it is the world before it.
\<close>

definition reads :: "'a js \<Rightarrow> world \<Rightarrow> 'a \<Rightarrow> bool" where
  "reads m w x = (m w = (Inr x, w))"

definition preserves :: "'a js \<Rightarrow> bool" where
  "preserves m = (\<forall>w. snd (m w) = w)"

text \<open>\<open>str_match v\<close>: \<open>v\<close> is a string that the pattern of \<open>rtvPin\<close> matches.\<close>

definition str_match :: "jsval \<Rightarrow> bool" where
  "str_match v = (case v of JStr s \<Rightarrow> rtv_regex s | _ \<Rightarrow> False)"

text \<open>
  The specification's wording of the pattern: a string of exactly 15 ASCII decimal
  digits. It is compared with \<open>rtv_regex\<close>, the pattern as the source has it.
\<close>

definition fifteen_digits :: "jsstring \<Rightarrow> bool" where
  "fifteen_digits s = (length s = 15 \<and> list_all (\<lambda>u. u \<in> set (utf16 ''0123456789'')) s)"

text \<open>
  The checks of \<open>validateConfig\<close> on the property table of an object, as one
  conjunction: each conjunct is the negation of the condition of one \<open>if\<close> of the
  source, in the order of the source.
\<close>

definition passes :: "(jsval \<Rightarrow> bool) \<Rightarrow> (jsval \<Rightarrow> bool) \<Rightarrow> props \<Rightarrow> bool" where
  "passes U P ps =
    (U (own ps ''relayPageURL'')
     \<and> typeof (own ps ''useOpaqueOrigin'') = ''boolean''
     \<and> \<not> (truthy (own ps ''imageProxyURL'') \<and> \<not> P (own ps ''imageProxyURL''))
     \<and> \<not> (truthy (own ps ''xhrProxyURL'') \<and> \<not> U (own ps ''xhrProxyURL''))
     \<and> \<not> (\<not> truthy (own ps ''xhrProxyURL'') \<and> truthy (own ps ''templateProxyURL''))
     \<and> \<not> (truthy (own ps ''templateProxyURL'') \<and> \<not> U (own ps ''templateProxyURL''))
     \<and> \<not> (\<not> truthy (own ps ''templateProxyURL'')
            \<and> truthy (own ps ''processTemplateProxyOutput''))
     \<and> \<not> (truthy (own ps ''linkRedirectURL'') \<and> \<not> P (own ps ''linkRedirectURL''))
     \<and> \<not> (truthy (own ps ''rtvPin'')
            \<and> (typeof (own ps ''rtvPin'') \<noteq> ''string'' \<or> \<not> str_match (own ps ''rtvPin'')))
     \<and> \<not> (truthy (own ps ''runtimeCDN'') \<and> \<not> U (own ps ''runtimeCDN''))
     \<and> \<not> (truthy (own ps ''failOnLoadErrorAfter'')
            \<and> (typeof (own ps ''failOnLoadErrorAfter'') \<noteq> ''number''
                \<or> js_lt (own ps ''failOnLoadErrorAfter'') (JNum (NumFin 0))
                \<or> js_gt (own ps ''failOnLoadErrorAfter'') (JNum (NumFin 10000))))
     \<and> \<not> (truthy (own ps ''loadTimeout'')
            \<and> (typeof (own ps ''loadTimeout'') \<noteq> ''number''
                \<or> js_lt (own ps ''loadTimeout'') (JNum (NumFin 0))
                \<or> js_gt (own ps ''loadTimeout'') (JNum (NumFin 10000))))
     \<and> \<not> (truthy (own ps ''rtvPin'') \<and> truthy (own ps ''runtimeCDN''))
     \<and> \<not> (truthy (own ps ''maximumAMPSize'')
            \<and> (typeof (own ps ''maximumAMPSize'') \<noteq> ''number''
                \<or> js_lt (own ps ''maximumAMPSize'') (JNum (NumFin 0)))))"

subsection \<open>Literals\<close>

lemma utf16_eq_Nil [simp]: "utf16 s = [] \<longleftrightarrow> s = []"
  by (simp add: utf16_def)

subsection \<open>Computations that only read\<close>

lemma reads_ret: "reads (ret x) w x"
  by (simp add: reads_def ret_def)

lemma reads_get: "E a k = None \<Longrightarrow> reads (get_prop E (JObj a) k) w (own (heap w a) k)"
  by (simp add: reads_def)

lemma reads_to_bool: "reads m w v \<Longrightarrow> reads (to_bool m) w (truthy v)"
  by (simp add: reads_def to_bool_def bnd_def ret_def)

lemma reads_apply: "reads m w v \<Longrightarrow> reads (apply_js f m) w (f v)"
  by (simp add: reads_def apply_js_def bnd_def ret_def)

lemma reads_not: "reads m w b \<Longrightarrow> reads (not_js m) w (\<not> b)"
  by (simp add: reads_def not_js_def bnd_def ret_def)

lemma reads_and: "reads m w b \<Longrightarrow> (b \<Longrightarrow> reads n w c) \<Longrightarrow> reads (and_js m n) w (b \<and> c)"
  by (cases b) (simp_all add: reads_def and_js_def bnd_def ret_def)

lemma reads_or: "reads m w b \<Longrightarrow> (\<not> b \<Longrightarrow> reads n w c) \<Longrightarrow> reads (or_js m n) w (b \<or> c)"
  by (cases b) (simp_all add: reads_def or_js_def bnd_def ret_def)

lemma reads_reject_if:
  "reads c w b \<Longrightarrow> (\<not> b \<Longrightarrow> reads rest w r) \<Longrightarrow> reads (reject_if c rest) w (\<not> b \<and> r)"
  by (cases b) (simp_all add: reads_def reject_if_def bnd_def ret_def)

text \<open>The call of \<open>match\<close> is reached only behind the \<open>typeof\<close> guard, where it cannot throw.\<close>

lemma reads_match:
  "E a k = None \<Longrightarrow> \<not> typeof (own (heap w a) k) \<noteq> ''string'' \<Longrightarrow>
   reads (bnd (get_prop E (JObj a) k) match_rtv) w (str_match (own (heap w a) k))"
  by (cases "own (heap w a) k") (simp_all add: reads_def bnd_def ret_def str_match_def)

lemma reads_conv: "reads m w x \<Longrightarrow> x = y \<Longrightarrow> reads m w y"
  by simp

lemmas reads_intros = reads_reject_if reads_and reads_or reads_not reads_to_bool reads_apply
  reads_match reads_get reads_ret

text \<open>
  On an object none of whose properties runs code, the validator returns the
  conjunction of its checks and never throws.
\<close>

lemma validateConfig_env_reads:
  assumes "\<And>k. E a k = None"
  shows "reads (validateConfig_env E U P (JObj a)) w (passes U P (heap w a))"
  apply (rule reads_conv)
   apply (simp only: validateConfig_env_def typeof.simps simp_thms if_False)
   apply (rule reads_intros assms | assumption)+
  apply (simp add: passes_def)
  done

lemma validateConfig_env_data_object:
  "(\<And>k. E a k = None) \<Longrightarrow>
   validateConfig_env E U P (JObj a) w = (Inr (passes U P (heap w a)), w)"
  using validateConfig_env_reads [of E a U P w] by (simp add: reads_def)

lemma validateConfig_object:
  "validateConfig U P (JObj a) w = (Inr (passes U P (heap w a)), w)"
  unfolding validateConfig_def by (rule validateConfig_env_data_object) (simp add: no_getters_def)

subsection \<open>Computations that leave the world alone\<close>

lemma preserves_ret: "preserves (ret x)"
  by (simp add: preserves_def ret_def)

lemma preserves_throw: "preserves (throw e)"
  by (simp add: preserves_def throw_def)

lemma preserves_bnd: "preserves m \<Longrightarrow> (\<And>x. preserves (f x)) \<Longrightarrow> preserves (bnd m f)"
  by (auto simp: preserves_def bnd_def split: prod.splits sum.splits) (metis snd_conv)+

lemma preserves_if: "preserves m \<Longrightarrow> preserves n \<Longrightarrow> preserves (if b then m else n)"
  by simp

lemma preserves_get_prop:
  "(\<And>g. getter_of E v k = Some g \<Longrightarrow> preserves g) \<Longrightarrow> preserves (get_prop E v k)"
  by (cases v) (auto simp: preserves_def ret_def throw_def split: option.splits)

lemma preserves_match_rtv: "preserves (match_rtv v)"
  by (cases v) (simp_all add: preserves_ret preserves_throw)

lemma preserves_to_bool: "preserves m \<Longrightarrow> preserves (to_bool m)"
  unfolding to_bool_def by (intro preserves_bnd preserves_ret)

lemma preserves_apply: "preserves m \<Longrightarrow> preserves (apply_js f m)"
  unfolding apply_js_def by (intro preserves_bnd preserves_ret)

lemma preserves_not: "preserves m \<Longrightarrow> preserves (not_js m)"
  unfolding not_js_def by (intro preserves_bnd preserves_ret)

lemma preserves_and: "preserves m \<Longrightarrow> preserves n \<Longrightarrow> preserves (and_js m n)"
  unfolding and_js_def by (intro preserves_bnd preserves_if preserves_ret)

lemma preserves_or: "preserves m \<Longrightarrow> preserves n \<Longrightarrow> preserves (or_js m n)"
  unfolding or_js_def by (intro preserves_bnd preserves_if preserves_ret)

lemma preserves_reject_if: "preserves c \<Longrightarrow> preserves rest \<Longrightarrow> preserves (reject_if c rest)"
  unfolding reject_if_def by (intro preserves_bnd preserves_if preserves_ret)

lemmas preserves_intros = preserves_if preserves_reject_if preserves_and preserves_or
  preserves_not preserves_to_bool preserves_apply preserves_bnd preserves_match_rtv
  preserves_ret

text \<open>
  The validator writes nothing itself: when the code that its property reads run
  leaves the world alone, so does the call.
\<close>

lemma preserves_validateConfig_env:
  assumes "\<And>k g. getter_of E config k = Some g \<Longrightarrow> preserves g"
  shows "preserves (validateConfig_env E U P config)"
  unfolding validateConfig_env_def
  by (intro preserves_intros preserves_get_prop assms)

lemma validateConfig_env_world:
  "(\<And>k g. getter_of E config k = Some g \<Longrightarrow> preserves g) \<Longrightarrow>
   snd (validateConfig_env E U P config w) = w"
  using preserves_validateConfig_env [of E config U P] by (simp add: preserves_def)

lemma validateConfig_world: "snd (validateConfig U P config w) = w"
  unfolding validateConfig_def
  by (rule validateConfig_env_world) (cases config; simp add: no_getters_def)

subsection \<open>What the pattern accepts\<close>

lemma is_digit_iff: "is_digit u \<longleftrightarrow> u \<in> set (utf16 ''0123456789'')"
  by (simp add: is_digit_def utf16_def) arith

lemma digits_Some:
  "digits n s = Some r \<longleftrightarrow> (\<exists>d. s = d @ r \<and> length d = n \<and> list_all is_digit d)"
proof (induction n s rule: digits.induct)
  case (1 s)
  then show ?case by auto
next
  case (2 n)
  then show ?case by auto
next
  case (3 n c cs)
  show ?case
  proof (cases "is_digit c")
    case True
    with 3 show ?thesis
      by (auto simp: Cons_eq_append_conv length_Suc_conv)
  next
    case False
    then show ?thesis
      by (auto simp: Cons_eq_append_conv length_Suc_conv)
  qed
qed

lemma rtv_regex_iff:
  "rtv_regex s \<longleftrightarrow> length s = 15 \<and> list_all (\<lambda>u. u \<in> set (utf16 ''0123456789'')) s"
proof -
  have "rtv_regex s \<longleftrightarrow> digits 15 s = Some []"
    by (simp add: rtv_regex_def split: option.splits)
  also have "\<dots> \<longleftrightarrow> length s = 15 \<and> list_all is_digit s"
    by (auto simp: digits_Some)
  finally show ?thesis
    by (simp add: is_digit_iff [abs_def])
qed

lemma rtv_regex_fifteen_digits: "rtv_regex s = fifteen_digits s"
  unfolding fifteen_digits_def by (rule rtv_regex_iff)

lemma not_fifteen_12345: "\<not> fifteen_digits (utf16 ''12345'')"
  by (simp add: fifteen_digits_def utf16_def)

lemma fifteen_example: "fifteen_digits (utf16 ''123456789012345'')"
  by (simp add: fifteen_digits_def utf16_def)

lemma pin_reject:
  "\<not> (\<exists>s. v = JStr s \<and> fifteen_digits s) \<Longrightarrow> typeof v \<noteq> ''string'' \<or> \<not> str_match v"
  by (cases v) (simp_all add: str_match_def rtv_regex_fifteen_digits)

subsection \<open>Property tables\<close>

lemma heap_set_prop: "heap (set_prop a k v w) a = (heap w a)(k \<mapsto> v)"
  by (simp add: set_prop_def)

lemma heap_del_prop: "heap (del_prop a k w) a = (heap w a)(k := None)"
  by (simp add: del_prop_def)

lemma heap_literal: "heap (literal ps) 0 = map_of ps"
  by (simp add: literal_def)

lemma own_upd: "own (ps(k \<mapsto> v)) k' = (if k' = k then v else own ps k')"
  by (simp add: own_def)

lemma own_del: "own (ps(k := None)) k' = (if k' = k then JUndefined else own ps k')"
  by (simp add: own_def)

lemmas object_simps = validateConfig_object passes_def heap_set_prop heap_del_prop own_upd own_del

lemmas literal_simps = validateConfig_object passes_def heap_set_prop heap_del_prop heap_literal
  own_def sample_url_def minimal_config_def utf16_def

lemma str_match_JStr: "str_match (JStr s) = rtv_regex s"
  by (simp add: str_match_def)

text \<open>The validator reads no property named \<open>transformTemplateProxyOutput\<close>.\<close>

lemma passes_cong:
  assumes "\<And>k. k \<noteq> ''transformTemplateProxyOutput'' \<Longrightarrow> ps k = ps' k"
  shows "passes U P ps = passes U P ps'"
proof -
  have "\<And>k. k \<noteq> ''transformTemplateProxyOutput'' \<Longrightarrow> own ps k = own ps' k"
    by (simp add: own_def assms)
  then show ?thesis
    by (simp add: passes_def)
qed

text \<open>The minimal object is accepted when the relay URL is.\<close>

lemma minimal_config_accepted:
  "validateConfig sample_url sample_url (JObj 0) (literal minimal_config)
   = (Inr True, literal minimal_config)"
  by (simp add: literal_simps)

subsection \<open>An object whose \<open>relayPageURL\<close> is read by running code\<close>

text \<open>
  \<open>relayPageURL\<close> is read once, by the second statement of the body. When its read
  runs \<open>g\<close>, which returns \<open>v\<close> and leaves the world \<open>w'\<close>, and no other property of
  the object runs code, the rest of the body reads the object as \<open>w'\<close> has it.
\<close>

lemma done_conv: "m w = (Inr x, w') \<Longrightarrow> x = y \<Longrightarrow> m w = (Inr y, w')"
  by simp

lemma reject_first:
  "m w = (Inr v, w') \<Longrightarrow> (\<not> \<not> U v \<Longrightarrow> reads rest w' r) \<Longrightarrow>
   reject_if (not_js (apply_js U m)) rest w = (Inr (\<not> \<not> U v \<and> r), w')"
  by (cases "U v") (simp_all add: reads_def reject_if_def not_js_def apply_js_def bnd_def ret_def)

lemma validateConfig_env_relay_getter:
  assumes getter: "E a ''relayPageURL'' = Some g"
    and run: "g w = (Inr v, w')"
    and others: "\<And>k. k \<noteq> ''relayPageURL'' \<Longrightarrow> E a k = None"
  shows "validateConfig_env E U P (JObj a) w
    = (Inr (passes U P ((heap w' a)(''relayPageURL'' \<mapsto> v))), w')"
  apply (rule done_conv)
   apply (simp only: validateConfig_env_def typeof.simps simp_thms if_False)
   apply (rule reject_first)
    apply (simp add: getter run)
   apply (rule reads_intros others | assumption | simp)+
  apply (simp add: passes_def own_upd)
  done

subsection \<open>Inputs that are not objects\<close>

text \<open>
  Every value whose \<open>typeof\<close> is not \<open>"object"\<close> (\<open>undefined\<close>, booleans, numbers,
  strings, bigints, symbols, functions) is rejected by the first statement, and every
  input other than \<open>null\<close> whose property reads run no code gets a boolean.
\<close>

lemma validateConfig_primitive:
  "typeof config \<noteq> ''object'' \<Longrightarrow> validateConfig U P config w = (Inr False, w)"
  by (simp add: validateConfig_def validateConfig_env_def ret_def)

lemma validateConfig_returns:
  "config \<noteq> JNull \<Longrightarrow> \<exists>b. validateConfig U P config w = (Inr b, w)"
  by (cases config) (auto simp: validateConfig_primitive validateConfig_object)

section \<open>The claims\<close>

text \<open>
  C1. Claimed: for every object accepted by the preceding checks, a truthy
  \<open>transformTemplateProxyOutput\<close> with an absent or falsy \<open>templateProxyURL\<close> makes
  \<open>validateConfig\<close> return false. The source tests \<open>config.processTemplateProxyOutput\<close>
  instead, a name the \<open>Config\<close> interface does not declare, while the interface
  documents \<open>transformTemplateProxyOutput\<close> as "Must be false if templateProxyURL is
  unset". At the minimal valid object with \<open>transformTemplateProxyOutput: true\<close> added,
  the flag is truthy, there is no \<open>templateProxyURL\<close>, and the validator returns true.
\<close>

theorem transform_flag_not_enforced:
  "truthy (own (heap (set_prop 0 ''transformTemplateProxyOutput'' (JBool True)
                        (literal minimal_config)) 0) ''transformTemplateProxyOutput'')
   \<and> \<not> truthy (own (heap (set_prop 0 ''transformTemplateProxyOutput'' (JBool True)
                        (literal minimal_config)) 0) ''templateProxyURL'')
   \<and> validateConfig sample_url sample_url (JObj 0)
        (set_prop 0 ''transformTemplateProxyOutput'' (JBool True) (literal minimal_config))
      = (Inr True,
         set_prop 0 ''transformTemplateProxyOutput'' (JBool True) (literal minimal_config))"
  by (simp add: literal_simps)

text \<open>
  C2. Claimed: every input that is not an object, \<open>null\<close> included, is rejected with
  false, and no input makes the validator throw. \<open>typeof null\<close> is \<open>"object"\<close>, so
  \<open>null\<close> passes the first statement and the read of \<open>config.relayPageURL\<close> throws a
  TypeError, for any URL predicates and in any world.
\<close>

theorem validateConfig_null_throws:
  "validateConfig U P JNull w = (Inl TypeError, w)"
  by (simp add: validateConfig_def validateConfig_env_def reject_if_def not_js_def apply_js_def
      bnd_def throw_def)

text \<open>
  C3. For every object with a truthy \<open>templateProxyURL\<close> and an absent or falsy
  \<open>xhrProxyURL\<close>, \<open>validateConfig\<close> returns false. For an object whose
  \<open>templateProxyURL\<close> is \<open>"https://example.com/tpl"\<close> and which is otherwise valid (some
  value of \<open>xhrProxyURL\<close> makes the validator accept it), setting \<open>xhrProxyURL\<close> to
  \<open>"https://example.com/xhr"\<close> makes \<open>validateConfig\<close> return true, provided
  \<open>isValidURL\<close> accepts both URLs.
\<close>

theorem templateProxyURL_requires_xhrProxyURL:
  "(truthy (own (heap w a) ''templateProxyURL'') \<and> \<not> truthy (own (heap w a) ''xhrProxyURL'')
      \<longrightarrow> validateConfig U P (JObj a) w = (Inr False, w))
   \<and> (own (heap w a) ''templateProxyURL'' = JStr (utf16 ''https://example.com/tpl'')
      \<and> U (JStr (utf16 ''https://example.com/tpl'')) \<and> U (JStr (utf16 ''https://example.com/xhr''))
      \<and> (\<exists>x. fst (validateConfig U P (JObj a) (set_prop a ''xhrProxyURL'' x w)) = Inr True)
      \<longrightarrow> fst (validateConfig U P (JObj a)
                (set_prop a ''xhrProxyURL'' (JStr (utf16 ''https://example.com/xhr'')) w)) = Inr True)"
  by (auto simp: object_simps)

theorem templateProxyURL_requires_xhrProxyURL_witness:
  "validateConfig sample_url sample_url (JObj 0)
     (set_prop 0 ''templateProxyURL'' (JStr (utf16 ''https://example.com/tpl'')) (literal minimal_config))
   = (Inr False,
      set_prop 0 ''templateProxyURL'' (JStr (utf16 ''https://example.com/tpl'')) (literal minimal_config))
   \<and> fst (validateConfig sample_url sample_url (JObj 0)
         (set_prop 0 ''xhrProxyURL'' (JStr (utf16 ''https://example.com/xhr''))
           (set_prop 0 ''templateProxyURL'' (JStr (utf16 ''https://example.com/tpl''))
             (literal minimal_config)))) = Inr True"
proof -
  let ?w = "set_prop 0 ''templateProxyURL'' (JStr (utf16 ''https://example.com/tpl''))
              (literal minimal_config)"
  have tpl: "own (heap ?w 0) ''templateProxyURL'' = JStr (utf16 ''https://example.com/tpl'')"
    by (simp add: heap_set_prop own_upd)
  then have tpl_truthy: "truthy (own (heap ?w 0) ''templateProxyURL'')"
    by simp
  have xhr: "\<not> truthy (own (heap ?w 0) ''xhrProxyURL'')"
    by (simp add: heap_set_prop heap_literal own_def minimal_config_def)
  have urls: "sample_url (JStr (utf16 ''https://example.com/tpl''))"
    "sample_url (JStr (utf16 ''https://example.com/xhr''))"
    by (simp_all add: sample_url_def utf16_def)
  have other: "\<exists>x. fst (validateConfig sample_url sample_url (JObj 0)
          (set_prop 0 ''xhrProxyURL'' x ?w)) = Inr True"
    by (rule exI [where x = "JStr (utf16 ''https://proxy.example.org/'')"]) (simp add: literal_simps)
  from tpl tpl_truthy xhr urls other
    templateProxyURL_requires_xhrProxyURL [of ?w 0 sample_url sample_url]
  show ?thesis by blast
qed

text \<open>
  C4. For every object in which both \<open>rtvPin\<close> and \<open>runtimeCDN\<close> are truthy,
  \<open>validateConfig\<close> returns false, whatever the two values are. The witness has a
  15-digit pin and a CDN URL the predicate accepts: the object with both is rejected,
  the objects with either one alone are accepted.
\<close>

theorem rtvPin_excludes_runtimeCDN:
  "truthy (own (heap w a) ''rtvPin'') \<Longrightarrow> truthy (own (heap w a) ''runtimeCDN'') \<Longrightarrow>
   validateConfig U P (JObj a) w = (Inr False, w)"
  by (simp add: validateConfig_object passes_def)

theorem rtvPin_excludes_runtimeCDN_witness:
  "validateConfig sample_url sample_url (JObj 0)
     (set_prop 0 ''runtimeCDN'' (JStr (utf16 ''https://cdn.example.com''))
       (set_prop 0 ''rtvPin'' (JStr (utf16 ''123456789012345'')) (literal minimal_config)))
   = (Inr False,
      set_prop 0 ''runtimeCDN'' (JStr (utf16 ''https://cdn.example.com''))
       (set_prop 0 ''rtvPin'' (JStr (utf16 ''123456789012345'')) (literal minimal_config)))
   \<and> fst (validateConfig sample_url sample_url (JObj 0)
         (set_prop 0 ''rtvPin'' (JStr (utf16 ''123456789012345'')) (literal minimal_config)))
       = Inr True
   \<and> fst (validateConfig sample_url sample_url (JObj 0)
         (set_prop 0 ''runtimeCDN'' (JStr (utf16 ''https://cdn.example.com''))
           (literal minimal_config)))
       = Inr True"
proof -
  let ?w = "set_prop 0 ''runtimeCDN'' (JStr (utf16 ''https://cdn.example.com''))
       (set_prop 0 ''rtvPin'' (JStr (utf16 ''123456789012345'')) (literal minimal_config))"
  have "truthy (own (heap ?w 0) ''rtvPin'')" and "truthy (own (heap ?w 0) ''runtimeCDN'')"
    by (simp_all add: heap_set_prop own_upd)
  then have both: "validateConfig sample_url sample_url (JObj 0) ?w = (Inr False, ?w)"
    by (rule rtvPin_excludes_runtimeCDN)
  have "str_match (JStr (utf16 ''123456789012345''))"
    by (simp add: str_match_JStr rtv_regex_fifteen_digits fifteen_example)
  then have pin_alone: "fst (validateConfig sample_url sample_url (JObj 0)
      (set_prop 0 ''rtvPin'' (JStr (utf16 ''123456789012345'')) (literal minimal_config)))
    = Inr True"
    by (simp add: object_simps heap_literal minimal_config_def sample_url_def)
      (simp add: own_def utf16_def)
  have cdn_alone: "fst (validateConfig sample_url sample_url (JObj 0)
      (set_prop 0 ''runtimeCDN'' (JStr (utf16 ''https://cdn.example.com''))
        (literal minimal_config)))
    = Inr True"
    by (simp add: literal_simps)
  from both pin_alone cdn_alone show ?thesis
    by (intro conjI)
qed

text \<open>
  C5. For every object whose \<open>useOpaqueOrigin\<close> is not of type boolean, the string
  \<open>"true"\<close> and every other truthy non-boolean included, \<open>validateConfig\<close> returns
  false: the test is on \<open>typeof\<close>, not on truthiness.
\<close>

theorem useOpaqueOrigin_strict:
  "typeof (own (heap w a) ''useOpaqueOrigin'') \<noteq> ''boolean'' \<Longrightarrow>
   validateConfig U P (JObj a) w = (Inr False, w)"
  by (simp add: validateConfig_object passes_def)

theorem useOpaqueOrigin_strict_witness:
  "truthy (JStr (utf16 ''true''))
   \<and> validateConfig sample_url sample_url (JObj 0)
        (set_prop 0 ''useOpaqueOrigin'' (JStr (utf16 ''true'')) (literal minimal_config))
      = (Inr False, set_prop 0 ''useOpaqueOrigin'' (JStr (utf16 ''true'')) (literal minimal_config))"
proof -
  let ?w = "set_prop 0 ''useOpaqueOrigin'' (JStr (utf16 ''true'')) (literal minimal_config)"
  have "typeof (own (heap ?w 0) ''useOpaqueOrigin'') \<noteq> ''boolean''"
    by (simp add: heap_set_prop own_upd)
  then have "validateConfig sample_url sample_url (JObj 0) ?w = (Inr False, ?w)"
    by (rule useOpaqueOrigin_strict)
  then show ?thesis
    by simp
qed

text \<open>
  C6. For every object with a truthy \<open>rtvPin\<close>, \<open>validateConfig\<close> returns false unless
  \<open>rtvPin\<close> is a string of exactly 15 ASCII decimal digits; in particular the pin
  \<open>"12345"\<close> is rejected. An object that is accepted without its \<open>rtvPin\<close> and has no
  truthy \<open>runtimeCDN\<close> is accepted with any 15-digit pin.
\<close>

theorem rtvPin_fifteen_digits:
  "(truthy (own (heap w a) ''rtvPin'')
      \<and> \<not> (\<exists>s. own (heap w a) ''rtvPin'' = JStr s \<and> fifteen_digits s)
      \<longrightarrow> validateConfig U P (JObj a) w = (Inr False, w))
   \<and> (own (heap w a) ''rtvPin'' = JStr (utf16 ''12345'')
      \<longrightarrow> validateConfig U P (JObj a) w = (Inr False, w))
   \<and> (fifteen_digits s
      \<and> \<not> truthy (own (heap w a) ''runtimeCDN'')
      \<and> fst (validateConfig U P (JObj a) (del_prop a ''rtvPin'' w)) = Inr True
      \<longrightarrow> fst (validateConfig U P (JObj a) (set_prop a ''rtvPin'' (JStr s) w)) = Inr True)"
proof (intro conjI impI)
  assume pin: "truthy (own (heap w a) ''rtvPin'')
      \<and> \<not> (\<exists>s. own (heap w a) ''rtvPin'' = JStr s \<and> fifteen_digits s)"
  from pin have "truthy (own (heap w a) ''rtvPin'')" ..
  moreover from pin have "\<not> (\<exists>s. own (heap w a) ''rtvPin'' = JStr s \<and> fifteen_digits s)" ..
  then have "typeof (own (heap w a) ''rtvPin'') \<noteq> ''string''
      \<or> \<not> str_match (own (heap w a) ''rtvPin'')"
    by (rule pin_reject)
  ultimately show "validateConfig U P (JObj a) w = (Inr False, w)"
    by (auto simp: validateConfig_object passes_def)
next
  assume "own (heap w a) ''rtvPin'' = JStr (utf16 ''12345'')"
  then have "truthy (own (heap w a) ''rtvPin'')"
    and "\<not> str_match (own (heap w a) ''rtvPin'')"
    by (simp_all add: str_match_JStr rtv_regex_fifteen_digits not_fifteen_12345)
  then show "validateConfig U P (JObj a) w = (Inr False, w)"
    by (auto simp: validateConfig_object passes_def)
next
  assume "fifteen_digits s
      \<and> \<not> truthy (own (heap w a) ''runtimeCDN'')
      \<and> fst (validateConfig U P (JObj a) (del_prop a ''rtvPin'' w)) = Inr True"
  then show "fst (validateConfig U P (JObj a) (set_prop a ''rtvPin'' (JStr s) w)) = Inr True"
    by (simp add: object_simps str_match_JStr rtv_regex_fifteen_digits)
qed

theorem rtvPin_fifteen_digits_witness:
  "validateConfig sample_url sample_url (JObj 0)
     (set_prop 0 ''rtvPin'' (JStr (utf16 ''12345'')) (literal minimal_config))
   = (Inr False, set_prop 0 ''rtvPin'' (JStr (utf16 ''12345'')) (literal minimal_config))
   \<and> fst (validateConfig sample_url sample_url (JObj 0)
         (set_prop 0 ''rtvPin'' (JStr (utf16 ''123456789012345''))
           (set_prop 0 ''rtvPin'' (JStr (utf16 ''12345'')) (literal minimal_config)))) = Inr True"
proof -
  let ?w = "set_prop 0 ''rtvPin'' (JStr (utf16 ''12345'')) (literal minimal_config)"
  note T = rtvPin_fifteen_digits [where w = ?w and a = 0 and U = sample_url and P = sample_url
      and s = "utf16 ''123456789012345''"]
  have pin: "own (heap ?w 0) ''rtvPin'' = JStr (utf16 ''12345'')"
    by (simp add: heap_set_prop own_upd)
  then have wrong: "truthy (own (heap ?w 0) ''rtvPin'')
      \<and> \<not> (\<exists>s. own (heap ?w 0) ''rtvPin'' = JStr s \<and> fifteen_digits s)"
    by (simp add: not_fifteen_12345)
  have "\<not> truthy (own (heap ?w 0) ''runtimeCDN'')
      \<and> fst (validateConfig sample_url sample_url (JObj 0) (del_prop 0 ''rtvPin'' ?w)) = Inr True"
    by (simp add: literal_simps)
  with fifteen_example have right: "fifteen_digits (utf16 ''123456789012345'')
      \<and> \<not> truthy (own (heap ?w 0) ''runtimeCDN'')
      \<and> fst (validateConfig sample_url sample_url (JObj 0) (del_prop 0 ''rtvPin'' ?w)) = Inr True"
    by (rule conjI)
  from T pin wrong right show ?thesis
    by blast
qed

text \<open>
  C7. A \<open>loadTimeout\<close> of 10001 makes \<open>validateConfig\<close> return false on every object.
  On an object that is accepted without its \<open>loadTimeout\<close>, a \<open>loadTimeout\<close> of 10000
  and one of 0 are both accepted. A value of 0 for \<open>loadTimeout\<close>,
  \<open>failOnLoadErrorAfter\<close> or \<open>maximumAMPSize\<close> is treated as absent: on every object the
  result is the one the validator gives with the field deleted.
\<close>

theorem loadTimeout_range_and_zero:
  "validateConfig U P (JObj a) (set_prop a ''loadTimeout'' (JNum (NumFin 10001)) w)
     = (Inr False, set_prop a ''loadTimeout'' (JNum (NumFin 10001)) w)
   \<and> (fst (validateConfig U P (JObj a) (del_prop a ''loadTimeout'' w)) = Inr True \<longrightarrow>
        fst (validateConfig U P (JObj a) (set_prop a ''loadTimeout'' (JNum (NumFin 10000)) w))
          = Inr True
        \<and> fst (validateConfig U P (JObj a) (set_prop a ''loadTimeout'' (JNum (NumFin 0)) w))
          = Inr True)
   \<and> fst (validateConfig U P (JObj a) (set_prop a ''loadTimeout'' (JNum (NumFin 0)) w))
       = fst (validateConfig U P (JObj a) (del_prop a ''loadTimeout'' w))
   \<and> fst (validateConfig U P (JObj a) (set_prop a ''failOnLoadErrorAfter'' (JNum (NumFin 0)) w))
       = fst (validateConfig U P (JObj a) (del_prop a ''failOnLoadErrorAfter'' w))
   \<and> fst (validateConfig U P (JObj a) (set_prop a ''maximumAMPSize'' (JNum (NumFin 0)) w))
       = fst (validateConfig U P (JObj a) (del_prop a ''maximumAMPSize'' w))"
proof (intro conjI impI)
  show "validateConfig U P (JObj a) (set_prop a ''loadTimeout'' (JNum (NumFin 10001)) w)
     = (Inr False, set_prop a ''loadTimeout'' (JNum (NumFin 10001)) w)"
    by (simp add: object_simps js_gt_def)
next
  assume "fst (validateConfig U P (JObj a) (del_prop a ''loadTimeout'' w)) = Inr True"
  then show "fst (validateConfig U P (JObj a)
      (set_prop a ''loadTimeout'' (JNum (NumFin 10000)) w)) = Inr True"
    by (simp add: object_simps js_gt_def)
next
  assume "fst (validateConfig U P (JObj a) (del_prop a ''loadTimeout'' w)) = Inr True"
  then show "fst (validateConfig U P (JObj a)
      (set_prop a ''loadTimeout'' (JNum (NumFin 0)) w)) = Inr True"
    by (simp add: object_simps js_gt_def)
next
  show "fst (validateConfig U P (JObj a) (set_prop a ''loadTimeout'' (JNum (NumFin 0)) w))
       = fst (validateConfig U P (JObj a) (del_prop a ''loadTimeout'' w))"
    by (simp add: object_simps)
next
  show "fst (validateConfig U P (JObj a) (set_prop a ''failOnLoadErrorAfter'' (JNum (NumFin 0)) w))
       = fst (validateConfig U P (JObj a) (del_prop a ''failOnLoadErrorAfter'' w))"
    by (simp add: object_simps)
next
  show "fst (validateConfig U P (JObj a) (set_prop a ''maximumAMPSize'' (JNum (NumFin 0)) w))
       = fst (validateConfig U P (JObj a) (del_prop a ''maximumAMPSize'' w))"
    by (simp add: object_simps)
qed

theorem loadTimeout_range_and_zero_witness:
  "validateConfig sample_url sample_url (JObj 0)
      (set_prop 0 ''loadTimeout'' (JNum (NumFin 10001)) (literal minimal_config))
     = (Inr False, set_prop 0 ''loadTimeout'' (JNum (NumFin 10001)) (literal minimal_config))
   \<and> fst (validateConfig sample_url sample_url (JObj 0)
      (set_prop 0 ''loadTimeout'' (JNum (NumFin 10000)) (literal minimal_config))) = Inr True
   \<and> fst (validateConfig sample_url sample_url (JObj 0)
      (set_prop 0 ''loadTimeout'' (JNum (NumFin 0)) (literal minimal_config))) = Inr True"
proof -
  have "fst (validateConfig sample_url sample_url (JObj 0)
      (del_prop 0 ''loadTimeout'' (literal minimal_config))) = Inr True"
    by (simp add: literal_simps)
  with loadTimeout_range_and_zero [where U = sample_url and P = sample_url and a = 0
      and w = "literal minimal_config"]
  show ?thesis
    by blast
qed

text \<open>
  C8. Claimed: for every input, \<open>validateConfig\<close> leaves the candidate object
  completely unchanged and has no effect beyond its result. The validator reads
  properties of its input, and reading an accessor property, or any property of a
  proxy, runs code of the input. On the object
  \<open>{n: 0, useOpaqueOrigin: true, get relayPageURL() { this.n = 1; return "https://example.com/relay"; }}\<close>
  the call returns true and the candidate's \<open>n\<close>, 0 before the call, is 1 after it.
\<close>

theorem getter_changes_candidate:
  "own (heap (literal [(''n'', JNum (NumFin 0)), (''useOpaqueOrigin'', JBool True)]) 0) ''n''
     = JNum (NumFin 0)
   \<and> fst (validateConfig_env counting_getters sample_url sample_url (JObj 0)
          (literal [(''n'', JNum (NumFin 0)), (''useOpaqueOrigin'', JBool True)])) = Inr True
   \<and> own (heap (snd (validateConfig_env counting_getters sample_url sample_url (JObj 0)
          (literal [(''n'', JNum (NumFin 0)), (''useOpaqueOrigin'', JBool True)]))) 0) ''n''
     = JNum (NumFin 1)"
proof -
  let ?w = "literal [(''n'', JNum (NumFin 0)), (''useOpaqueOrigin'', JBool True)]"
  let ?url = "JStr (utf16 ''https://example.com/relay'')"
  let ?w' = "set_prop 0 ''n'' (JNum (NumFin 1)) ?w"
  have "validateConfig_env counting_getters sample_url sample_url (JObj 0) ?w
    = (Inr (passes sample_url sample_url ((heap ?w' 0)(''relayPageURL'' \<mapsto> ?url))), ?w')"
    by (rule validateConfig_env_relay_getter
          [where g = "\<lambda>w. (Inr ?url, set_prop 0 ''n'' (JNum (NumFin 1)) w)"])
      (simp_all add: counting_getters_def)
  then show ?thesis
    by (simp add: passes_def heap_set_prop heap_literal own_def sample_url_def utf16_def)
qed

text \<open>
  C8, amended. \<open>validateConfig\<close> writes nothing itself: it makes no assignment, no
  copy and no call to the console. For every input whose property reads run no code
  that changes the world (every object with data properties only, every object whose
  getters and traps leave the world alone, every non-object), the world after the
  call is the world before it, whether the call returns true, returns false or
  throws: no property of any object is changed, added or removed, and nothing is
  written to the console.
\<close>

theorem validateConfig_no_effect:
  assumes "\<And>k g. getter_of E config k = Some g \<Longrightarrow> preserves g"
  shows "snd (validateConfig_env E U P config w) = w"
  using assms by (rule validateConfig_env_world)

theorem validateConfig_no_effect_witness:
  "fst (validateConfig_env constant_getters sample_url sample_url (JObj 0)
      (literal [(''useOpaqueOrigin'', JBool True)])) = Inr True
   \<and> snd (validateConfig_env constant_getters sample_url sample_url (JObj 0)
      (literal [(''useOpaqueOrigin'', JBool True)]))
     = literal [(''useOpaqueOrigin'', JBool True)]"
proof -
  let ?w = "literal [(''useOpaqueOrigin'', JBool True)]"
  let ?url = "JStr (utf16 ''https://example.com/relay'')"
  have "\<And>k g. getter_of constant_getters (JObj 0) k = Some g \<Longrightarrow> preserves g"
    by (auto simp: constant_getters_def preserves_ret split: if_splits)
  then have unchanged: "snd (validateConfig_env constant_getters sample_url sample_url (JObj 0) ?w) = ?w"
    by (rule validateConfig_no_effect)
  have "validateConfig_env constant_getters sample_url sample_url (JObj 0) ?w
    = (Inr (passes sample_url sample_url ((heap ?w 0)(''relayPageURL'' \<mapsto> ?url))), ?w)"
    by (rule validateConfig_env_relay_getter [where g = "ret ?url"])
      (simp_all add: constant_getters_def ret_def)
  then have "fst (validateConfig_env constant_getters sample_url sample_url (JObj 0) ?w) = Inr True"
    by (simp add: passes_def heap_literal own_def sample_url_def utf16_def)
  then show ?thesis
    using unchanged by (rule conjI)
qed




text \<open>
  C10. The validator reads \<open>processTemplateProxyOutput\<close>, not
  \<open>transformTemplateProxyOutput\<close>: every object with an absent or falsy
  \<open>templateProxyURL\<close> and a truthy \<open>processTemplateProxyOutput\<close> is rejected, and two
  objects whose property tables differ at most at \<open>transformTemplateProxyOutput\<close>
  (in its value or in its presence) get the same result.
\<close>

theorem processTemplateProxyOutput_is_read:
  "(\<not> truthy (own (heap w a) ''templateProxyURL'')
      \<and> truthy (own (heap w a) ''processTemplateProxyOutput'')
      \<longrightarrow> validateConfig U P (JObj a) w = (Inr False, w))
   \<and> ((\<forall>k. k \<noteq> ''transformTemplateProxyOutput'' \<longrightarrow> heap w a k = heap w' a' k)
      \<longrightarrow> fst (validateConfig U P (JObj a) w) = fst (validateConfig U P (JObj a') w'))"
proof (intro conjI impI)
  assume "\<not> truthy (own (heap w a) ''templateProxyURL'')
      \<and> truthy (own (heap w a) ''processTemplateProxyOutput'')"
  then show "validateConfig U P (JObj a) w = (Inr False, w)"
    by (simp add: validateConfig_object passes_def)
next
  assume "\<forall>k. k \<noteq> ''transformTemplateProxyOutput'' \<longrightarrow> heap w a k = heap w' a' k"
  then have "passes U P (heap w a) = passes U P (heap w' a')"
    by (intro passes_cong) simp
  then show "fst (validateConfig U P (JObj a) w) = fst (validateConfig U P (JObj a') w')"
    by (simp add: validateConfig_object)
qed

theorem processTemplateProxyOutput_is_read_witness:
  "validateConfig sample_url sample_url (JObj 0)
     (set_prop 0 ''processTemplateProxyOutput'' (JBool True) (literal minimal_config))
   = (Inr False, set_prop 0 ''processTemplateProxyOutput'' (JBool True) (literal minimal_config))
   \<and> fst (validateConfig sample_url sample_url (JObj 0)
         (set_prop 0 ''processTemplateProxyOutput'' (JBool True) (literal minimal_config)))
     = fst (validateConfig sample_url sample_url (JObj 0)
         (set_prop 0 ''transformTemplateProxyOutput'' (JBool False)
           (set_prop 0 ''processTemplateProxyOutput'' (JBool True) (literal minimal_config))))"
proof -
  let ?w = "set_prop 0 ''processTemplateProxyOutput'' (JBool True) (literal minimal_config)"
  let ?w' = "set_prop 0 ''transformTemplateProxyOutput'' (JBool False) ?w"
  note T = processTemplateProxyOutput_is_read [where w = ?w and a = 0 and w' = ?w' and a' = 0
      and U = sample_url and P = sample_url]
  have flag: "\<not> truthy (own (heap ?w 0) ''templateProxyURL'')
      \<and> truthy (own (heap ?w 0) ''processTemplateProxyOutput'')"
    by (simp add: heap_set_prop heap_literal own_def minimal_config_def)
  have same: "\<forall>k. k \<noteq> ''transformTemplateProxyOutput'' \<longrightarrow> heap ?w 0 k = heap ?w' 0 k"
    by (simp add: heap_set_prop)
  from T flag same show ?thesis
    by blast
qed

end
